theory Spec2Isabelle
  imports Complex_Main "HOL-Library.Word"
begin

unbundle bit_operations_syntax

section \<open>JavaScript values\<close>

text \<open>
  The wrapper of \<^verbatim>\<open>src/encrypt-password.ts\<close> tests its arguments at run time
  (\<^verbatim>\<open>typeof\<close>, \<^verbatim>\<open>Number.isInteger\<close>), so its arguments are modelled as
  untyped JavaScript values. A string is a sequence of UTF-16 code units, and
  \<^verbatim>\<open>s.length\<close> counts code units. A Number is a double: every finite double is a
  rational, so \<open>Num\<close> carries a rational and the three other shapes are kept apart.
\<close>

type_synonym jsstring = "16 word list"
type_synonym byte = "8 word"
type_synonym Buffer = "byte list"

datatype number = NaN | PosInfinity | NegInfinity | Num rat

datatype jsval =
    JUndefined
  | JNull
  | JBoolean bool
  | JNumber number
  | JString jsstring
  | JObject "(string \<times> jsval) list"

text \<open>
  An object is the list of its own data properties; reading a property that is absent
  gives \<^verbatim>\<open>undefined\<close>, so an absent property and one that holds
  \<^verbatim>\<open>undefined\<close> read the same.
\<close>

type_synonym object = "(string \<times> jsval) list"

definition get_prop :: "object \<Rightarrow> string \<Rightarrow> jsval" where
  "get_prop obj k = (case map_of obj k of None \<Rightarrow> JUndefined | Some v \<Rightarrow> v)"

text \<open>
  A destructuring default \<^verbatim>\<open>{ x = d }\<close>: the default replaces
  \<^verbatim>\<open>undefined\<close> and nothing else (not \<^verbatim>\<open>null\<close>, not \<^verbatim>\<open>0\<close>).
\<close>

definition or_default :: "jsval \<Rightarrow> jsval \<Rightarrow> jsval" where
  "or_default v d = (if v = JUndefined then d else v)"

text \<open>
  \<^verbatim>\<open>Number.isInteger(v)\<close> holds when \<open>v\<close> is a Number, finite, and equal to its
  floor. \<open>integer_value\<close> is that integer where \<^verbatim>\<open>Number.isInteger(v)\<close> is true, and
  \<open>None\<close> where it is false.
\<close>

fun integer_value :: "jsval \<Rightarrow> int option" where
  "integer_value (JNumber (Num q)) = (if of_int \<lfloor>q\<rfloor> = q then Some \<lfloor>q\<rfloor> else None)"
| "integer_value _ = None"

section \<open>Buffers\<close>

text \<open>
  \<^verbatim>\<open>Buffer.from(string)\<close> encodes the string as UTF-8: one byte below U+0080, two
  below U+0800, four for a surrogate pair, three otherwise; a surrogate without its
  partner is encoded as U+FFFD.
\<close>

fun Buffer_from :: "jsstring \<Rightarrow> Buffer" where
  "Buffer_from [] = []"
| "Buffer_from (c # cs) =
     (if c < 0x80 then ucast c # Buffer_from cs
      else if c < 0x800 then
        (0xC0 OR ucast (drop_bit 6 c)) # (0x80 OR ucast (c AND 0x3F)) # Buffer_from cs
      else if 0xD800 \<le> c \<and> c \<le> 0xDBFF then
        (case cs of
           [] \<Rightarrow> [0xEF, 0xBF, 0xBD]
         | d # ds \<Rightarrow>
             if 0xDC00 \<le> d \<and> d \<le> 0xDFFF then
               (let cp = (0x10000 :: 32 word) + push_bit 10 (ucast (c AND 0x3FF))
                           + ucast (d AND 0x3FF)
                in (0xF0 OR ucast (drop_bit 18 cp))
                   # (0x80 OR ucast (drop_bit 12 cp AND 0x3F))
                   # (0x80 OR ucast (drop_bit 6 cp AND 0x3F))
                   # (0x80 OR ucast (cp AND 0x3F))
                   # Buffer_from ds)
             else 0xEF # 0xBF # 0xBD # Buffer_from cs)
      else if 0xDC00 \<le> c \<and> c \<le> 0xDFFF then 0xEF # 0xBF # 0xBD # Buffer_from cs
      else (0xE0 OR ucast (drop_bit 12 c)) # (0x80 OR ucast (drop_bit 6 c AND 0x3F))
           # (0x80 OR ucast (c AND 0x3F)) # Buffer_from cs)"

text \<open>
  \<^verbatim>\<open>Buffer.alloc(size)\<close> is a zero-filled buffer of that many bytes. The allocation is
  taken to succeed: the platform's ceiling on buffer sizes and the exhaustion of memory
  are outside this model.
\<close>

definition Buffer_alloc :: "nat \<Rightarrow> Buffer" where
  "Buffer_alloc n = replicate n 0"

text \<open>
  A buffer never changes its length. All that a callee holding a reference to it can do
  is store bytes at indices, and a store outside the buffer is ignored, which is what
  list update does.
\<close>

definition store_all :: "Buffer \<Rightarrow> (nat \<times> byte) list \<Rightarrow> Buffer" where
  "store_all buf stores = fold (\<lambda>(i, b) xs. xs[i := b]) stores buf"

section \<open>The derivation primitive\<close>

text \<open>
  \<^verbatim>\<open>pbkdf\<close> is imported from the package \<^verbatim>\<open>bcrypt-pbkdf\<close>, which is not part of
  this repository. It is a parameter of the model: given the seven arguments of the call
  it returns a status code and the stores it performs on the key buffer. It is taken to
  be a function of its arguments that returns normally.
\<close>

type_synonym pbkdf =
  "Buffer \<Rightarrow> nat \<Rightarrow> Buffer \<Rightarrow> nat \<Rightarrow> Buffer \<Rightarrow> int \<Rightarrow> int \<Rightarrow> int \<times> (nat \<times> byte) list"

text \<open>
  A sample primitive for evaluating the wrapper on concrete inputs: it stores one byte
  and reports success. The theorems below hold for every primitive.
\<close>

definition pbkdf_sample :: pbkdf where
  "pbkdf_sample pass passlen salt saltlen key keylen rounds = (0, [(0, 1)])"

section \<open>Errors\<close>

text \<open>
  Every throw of the source is a \<^verbatim>\<open>TypeError\<close>; the throw sites differ in their
  messages. The template literals are written with \<^verbatim>\<open>minSaltLengh\<close> substituted.
\<close>

datatype error = TypeError string

definition minSaltLengh :: nat where
  "minSaltLengh = 8"

definition SaltVariableInvalid :: error where
  "SaltVariableInvalid =
     TypeError ''The SALT environment variable must be at least 8 characters long.''"

definition InvalidPassword :: error where
  "InvalidPassword = TypeError ''Argument `password` must be a string.''"

definition InvalidRoundCount :: error where
  "InvalidRoundCount =
     TypeError ''If specified, option `numberOfRounds` must be a positive integer.''"

definition InvalidOutputLength :: error where
  "InvalidOutputLength =
     TypeError ''If specified, option `outputLength` must be a positive integer.''"

definition SaltNotString :: error where
  "SaltNotString = TypeError ''Argument `salt` must be a string.''"

definition SaltTooShort :: error where
  "SaltTooShort = TypeError ''Argument `salt` must be at least 8 characters long.''"

text \<open>The specification's \<^verbatim>\<open>InvalidSalt\<close> covers both throws about the salt.\<close>

definition InvalidSalt :: "error \<Rightarrow> bool" where
  "InvalidSalt e = (e = SaltNotString \<or> e = SaltTooShort)"

section \<open>Module load\<close>

text \<open>
  \<^verbatim>\<open>validateSaltVariable\<close> runs once, when the module is loaded, on the value of
  \<^verbatim>\<open>env.SALT\<close> at that moment.
\<close>

definition validateSaltVariable :: "jsval \<Rightarrow> error + unit" where
  "validateSaltVariable SALT =
     (case SALT of
        JUndefined \<Rightarrow> Inr ()
      | JString s \<Rightarrow> if length s < minSaltLengh then Inl SaltVariableInvalid else Inr ()
      | _ \<Rightarrow> Inl SaltVariableInvalid)"

definition module_load :: "object \<Rightarrow> error + unit" where
  "module_load env = validateSaltVariable (get_prop env ''SALT'')"

section \<open>The wrapper\<close>

text \<open>
  \<^verbatim>\<open>encryptPassword(password, options)\<close>. The environment is the one at the moment of
  the call; \<open>options = None\<close> is a call without the second argument, for which the
  parameter's default \<^verbatim>\<open>{}\<close> stands in; otherwise the argument is an object, as its
  declared type says. The checks come in the order of the source,
  each pattern match standing for the source's type test: \<^verbatim>\<open>typeof v !== 'string'\<close> is
  every case but \<open>JString\<close>, and \<^verbatim>\<open>!Number.isInteger(v) || v < 1\<close> is
  \<open>integer_value v = None\<close> or an integer below 1. The status that \<^verbatim>\<open>pbkdf\<close>
  returns is discarded, as in the source.
\<close>

definition encryptPassword :: "pbkdf \<Rightarrow> object \<Rightarrow> jsval \<Rightarrow> object option \<Rightarrow> error + Buffer" where
  "encryptPassword pbkdf env password options =
     (let opts = (case options of None \<Rightarrow> [] | Some obj \<Rightarrow> obj);
          numberOfRounds = or_default (get_prop opts ''numberOfRounds'') (JNumber (Num 1));
          outputLength = or_default (get_prop opts ''outputLength'') (JNumber (Num 32));
          salt = or_default (get_prop opts ''salt'') (get_prop env ''SALT'')
      in case password of
           JString pw \<Rightarrow>
             (case integer_value numberOfRounds of
                None \<Rightarrow> Inl InvalidRoundCount
              | Some rounds \<Rightarrow>
                  if rounds < 1 then Inl InvalidRoundCount
                  else
                    (case integer_value outputLength of
                       None \<Rightarrow> Inl InvalidOutputLength
                     | Some keylen \<Rightarrow>
                         if keylen < 1 then Inl InvalidOutputLength
                         else
                           (case salt of
                              JString s \<Rightarrow>
                                if length s < minSaltLengh then Inl SaltTooShort
                                else
                                  (let buffer = Buffer_from pw;
                                       bufferLength = length buffer;
                                       saltBuffer = Buffer_from s;
                                       saltBufferLength = length saltBuffer;
                                       outputBuffer = Buffer_alloc (nat keylen);
                                       (status, stores) =
                                          pbkdf buffer bufferLength saltBuffer saltBufferLength
                                            outputBuffer keylen rounds
                                   in Inr (store_all outputBuffer stores))
                            | _ \<Rightarrow> Inl SaltNotString)))
         | _ \<Rightarrow> Inl InvalidPassword)"

text \<open>ASCII text as a JavaScript string, for writing concrete inputs.\<close>

definition ascii :: "string \<Rightarrow> jsstring" where
  "ascii s = map of_char s"

text \<open>
  Vocabulary for the statements: an option that is omitted (reads \<^verbatim>\<open>undefined\<close>) or
  holds a Number whose value is an integer of at least 1.
\<close>

definition omitted_or_positive :: "jsval \<Rightarrow> bool" where
  "omitted_or_positive v =
     (case v of JUndefined \<Rightarrow> True | JNumber (Num q) \<Rightarrow> of_int \<lfloor>q\<rfloor> = q \<and> 1 \<le> q | _ \<Rightarrow> False)"

section \<open>Basic facts\<close>

lemma length_store_all: "length (store_all buf stores) = length buf"
  unfolding store_all_def
  by (induction stores arbitrary: buf) (auto split: prod.splits)

lemma length_Buffer_alloc: "length (Buffer_alloc n) = n"
  by (simp add: Buffer_alloc_def)

lemma integer_value_of_int: "integer_value (JNumber (Num (of_int n))) = Some n"
  by simp

lemma integer_value_Some_iff:
  "integer_value v = Some n \<longleftrightarrow> v = JNumber (Num (of_int n))"
proof
  assume h: "integer_value v = Some n"
  then obtain q where v: "v = JNumber (Num q)"
    by (cases v rule: integer_value.cases) auto
  with h have "of_int \<lfloor>q\<rfloor> = q" and "\<lfloor>q\<rfloor> = n"
    by (auto split: if_splits)
  then show "v = JNumber (Num (of_int n))"
    using v by simp
next
  assume "v = JNumber (Num (of_int n))"
  then show "integer_value v = Some n" by simp
qed

lemma length_le_Buffer_from: "length s \<le> length (Buffer_from s)"
proof (induction "length s" arbitrary: s rule: less_induct)
  case less
  show ?case
  proof (cases s)
    case Nil
    then show ?thesis by simp
  next
    case (Cons c cs)
    have tail: "length cs \<le> length (Buffer_from cs)"
      using less [of cs] Cons by simp
    have tail2: "length ds \<le> length (Buffer_from ds)" if "cs = d # ds" for d ds
      using less [of ds] Cons that by simp
    have "length (c # cs) \<le> length (Buffer_from (c # cs))"
      apply (subst Buffer_from.simps(2))
      using tail
      by (auto simp del: Buffer_from.simps(2) simp add: Let_def le_Suc_eq
          split: list.split dest!: tail2)
    then show ?thesis using Cons by simp
  qed
qed

lemma errors_distinct:
  "InvalidPassword \<noteq> InvalidRoundCount" "InvalidPassword \<noteq> InvalidOutputLength"
  "InvalidPassword \<noteq> SaltNotString" "InvalidPassword \<noteq> SaltTooShort"
  "InvalidRoundCount \<noteq> InvalidOutputLength" "InvalidRoundCount \<noteq> SaltNotString"
  "InvalidRoundCount \<noteq> SaltTooShort" "InvalidOutputLength \<noteq> SaltNotString"
  "InvalidOutputLength \<noteq> SaltTooShort" "SaltNotString \<noteq> SaltTooShort"
  by (simp_all add: InvalidPassword_def InvalidRoundCount_def InvalidOutputLength_def
      SaltNotString_def SaltTooShort_def)

lemma encryptPassword_None:
  "encryptPassword P env pw None = encryptPassword P env pw (Some [])"
  by (simp add: encryptPassword_def)

lemma encryptPassword_returns:
  assumes "or_default (get_prop opts ''numberOfRounds'') (JNumber (Num 1)) = JNumber (Num (of_int r))"
    and "1 \<le> r"
    and "or_default (get_prop opts ''outputLength'') (JNumber (Num 32)) = JNumber (Num (of_int L))"
    and "1 \<le> L"
    and "or_default (get_prop opts ''salt'') (get_prop env ''SALT'') = JString s"
    and "minSaltLengh \<le> length s"
  shows "encryptPassword P env (JString p) (Some opts) =
           Inr (store_all (Buffer_alloc (nat L))
                  (snd (P (Buffer_from p) (length (Buffer_from p)) (Buffer_from s)
                          (length (Buffer_from s)) (Buffer_alloc (nat L)) L r)))"
  using assms by (simp add: encryptPassword_def Let_def split: prod.splits)

lemma encryptPassword_Inr_D:
  assumes "encryptPassword P env pw (Some opts) = Inr buf"
  shows "\<exists>p r L s. pw = JString p
           \<and> or_default (get_prop opts ''numberOfRounds'') (JNumber (Num 1)) = JNumber (Num (of_int r))
           \<and> 1 \<le> r
           \<and> or_default (get_prop opts ''outputLength'') (JNumber (Num 32)) = JNumber (Num (of_int L))
           \<and> 1 \<le> L
           \<and> or_default (get_prop opts ''salt'') (get_prop env ''SALT'') = JString s
           \<and> minSaltLengh \<le> length s
           \<and> buf = store_all (Buffer_alloc (nat L))
                  (snd (P (Buffer_from p) (length (Buffer_from p)) (Buffer_from s)
                          (length (Buffer_from s)) (Buffer_alloc (nat L)) L r))"
  using assms
  by (auto simp add: encryptPassword_def Let_def integer_value_Some_iff
      split: jsval.splits option.splits if_splits prod.splits)

lemma omitted_or_positive_iff:
  "omitted_or_positive v \<longleftrightarrow>
     v = JUndefined \<or> (\<exists>n. 1 \<le> n \<and> v = JNumber (Num (of_int n)))"
proof
  assume h: "omitted_or_positive v"
  show "v = JUndefined \<or> (\<exists>n. 1 \<le> n \<and> v = JNumber (Num (of_int n)))"
  proof (cases "v = JUndefined")
    case True
    then show ?thesis by simp
  next
    case False
    with h obtain q where q: "v = JNumber (Num q)" and i: "of_int \<lfloor>q\<rfloor> = q" and p: "1 \<le> q"
      unfolding omitted_or_positive_def
      by (cases v; simp split: number.splits)
    from p have "1 \<le> \<lfloor>q\<rfloor>" by simp
    moreover have "v = JNumber (Num (of_int \<lfloor>q\<rfloor>))"
      unfolding i by (rule q)
    ultimately show ?thesis by blast
  qed
next
  assume "v = JUndefined \<or> (\<exists>n. 1 \<le> n \<and> v = JNumber (Num (of_int n)))"
  then show "omitted_or_positive v"
    by (auto simp: omitted_or_positive_def)
qed

lemma omitted_or_positive_default:
  assumes "omitted_or_positive v" and "1 \<le> d"
  shows "\<exists>n. 1 \<le> n \<and> or_default v (JNumber (Num (of_int d))) = JNumber (Num (of_int n))"
  using assms unfolding omitted_or_positive_iff or_default_def by auto

lemma encryptPassword_valid:
  assumes "omitted_or_positive (get_prop opts ''numberOfRounds'')"
    and "omitted_or_positive (get_prop opts ''outputLength'')"
    and "or_default (get_prop opts ''salt'') (get_prop env ''SALT'') = JString s"
    and "minSaltLengh \<le> length s"
  shows "\<exists>buf. encryptPassword P env (JString p) (Some opts) = Inr buf"
proof -
  obtain r where r: "1 \<le> r"
      "or_default (get_prop opts ''numberOfRounds'') (JNumber (Num 1)) = JNumber (Num (of_int r))"
    using omitted_or_positive_default [OF assms(1), of 1] by auto
  obtain L where L: "1 \<le> L"
      "or_default (get_prop opts ''outputLength'') (JNumber (Num 32)) = JNumber (Num (of_int L))"
    using omitted_or_positive_default [OF assms(2), of 32] by auto
  show ?thesis
    using encryptPassword_returns [OF r(2) r(1) L(2) L(1) assms(3) assms(4)] by blast
qed

lemma encryptPassword_salt_short:
  assumes "omitted_or_positive (get_prop opts ''numberOfRounds'')"
    and "omitted_or_positive (get_prop opts ''outputLength'')"
    and "or_default (get_prop opts ''salt'') (get_prop env ''SALT'') = JString s"
    and "length s < minSaltLengh"
  shows "encryptPassword P env (JString p) (Some opts) = Inl SaltTooShort"
proof -
  obtain r where r: "1 \<le> r"
      "or_default (get_prop opts ''numberOfRounds'') (JNumber (Num 1)) = JNumber (Num (of_int r))"
    using omitted_or_positive_default [OF assms(1), of 1] by auto
  obtain L where L: "1 \<le> L"
      "or_default (get_prop opts ''outputLength'') (JNumber (Num 32)) = JNumber (Num (of_int L))"
    using omitted_or_positive_default [OF assms(2), of 32] by auto
  show ?thesis
    using r L assms(3,4) by (simp add: encryptPassword_def Let_def)
qed


lemma encryptPassword_not_string:
  assumes "\<forall>p. pw \<noteq> JString p"
  shows "encryptPassword P env pw options = Inl InvalidPassword"
  using assms by (simp add: encryptPassword_def Let_def split: jsval.splits)

lemma encryptPassword_bad_rounds:
  assumes "get_prop opts ''numberOfRounds'' \<noteq> JUndefined"
    and "\<forall>n. 1 \<le> n \<longrightarrow> get_prop opts ''numberOfRounds'' \<noteq> JNumber (Num (of_int n))"
  shows "encryptPassword P env (JString p) (Some opts) = Inl InvalidRoundCount"
proof -
  have v: "or_default (get_prop opts ''numberOfRounds'') (JNumber (Num 1)) = get_prop opts ''numberOfRounds''"
    using assms(1) by (simp add: or_default_def)
  show ?thesis
  proof (cases "integer_value (get_prop opts ''numberOfRounds'')")
    case None
    then show ?thesis by (simp add: encryptPassword_def Let_def v)
  next
    case (Some n)
    then have "get_prop opts ''numberOfRounds'' = JNumber (Num (of_int n))"
      by (simp add: integer_value_Some_iff)
    with assms(2) have "\<not> 1 \<le> n" by blast
    then have "n < 1" by simp
    with Some show ?thesis by (simp add: encryptPassword_def Let_def v)
  qed
qed

lemma encryptPassword_bad_length:
  assumes "omitted_or_positive (get_prop opts ''numberOfRounds'')"
    and "get_prop opts ''outputLength'' \<noteq> JUndefined"
    and "\<forall>n. 1 \<le> n \<longrightarrow> get_prop opts ''outputLength'' \<noteq> JNumber (Num (of_int n))"
  shows "encryptPassword P env (JString p) (Some opts) = Inl InvalidOutputLength"
proof -
  obtain r where r: "1 \<le> r"
      "or_default (get_prop opts ''numberOfRounds'') (JNumber (Num 1)) = JNumber (Num (of_int r))"
    using omitted_or_positive_default [OF assms(1), of 1] by auto
  have v: "or_default (get_prop opts ''outputLength'') (JNumber (Num 32)) = get_prop opts ''outputLength''"
    using assms(2) by (simp add: or_default_def)
  show ?thesis
  proof (cases "integer_value (get_prop opts ''outputLength'')")
    case None
    then show ?thesis using r by (simp add: encryptPassword_def Let_def v)
  next
    case (Some n)
    then have "get_prop opts ''outputLength'' = JNumber (Num (of_int n))"
      by (simp add: integer_value_Some_iff)
    with assms(3) have "\<not> 1 \<le> n" by blast
    then have "n < 1" by simp
    with Some show ?thesis using r by (simp add: encryptPassword_def Let_def v)
  qed
qed

lemma encryptPassword_error_before_pbkdf:
  assumes "encryptPassword P env pw options = Inl e"
  shows "encryptPassword P' env pw options = Inl e"
  using assms
  by (auto simp add: encryptPassword_def Let_def
      split: jsval.splits option.splits if_splits prod.splits)

lemma sample_call:
  "encryptPassword pbkdf_sample [] (JString (ascii ''hunter2''))
       (Some [(''outputLength'', JNumber (Num 4)), (''salt'', JString (ascii ''saltsalt''))])
     = Inr [1, 0, 0, 0]"
  by (simp add: encryptPassword_def get_prop_def or_default_def ascii_def minSaltLengh_def
      pbkdf_sample_def store_all_def Buffer_alloc_def numeral_eq_Suc)

lemma get_prop_Cons: "get_prop ((k, v) # obj) k' = (if k = k' then v else get_prop obj k')"
  by (simp add: get_prop_def)

lemma encryptPassword_resolve_salt:
  assumes "get_prop opts ''salt'' = JUndefined"
  shows "encryptPassword P env pw (Some opts)
           = encryptPassword P env pw (Some ((''salt'', get_prop env ''SALT'') # opts))"
proof -
  have rounds: "get_prop ((''salt'', get_prop env ''SALT'') # opts) ''numberOfRounds''
                  = get_prop opts ''numberOfRounds''"
    and len: "get_prop ((''salt'', get_prop env ''SALT'') # opts) ''outputLength''
                  = get_prop opts ''outputLength''"
    by (simp_all add: get_prop_Cons)
  have resolved: "or_default (get_prop ((''salt'', get_prop env ''SALT'') # opts) ''salt'')
                     (get_prop env ''SALT'')
                   = or_default (get_prop opts ''salt'') (get_prop env ''SALT'')"
    using assms by (simp add: get_prop_Cons or_default_def)
  show ?thesis
    unfolding encryptPassword_def option.case Let_def rounds len resolved by (rule refl)
qed

lemma length_ascii: "length (ascii s) = length s"
  by (simp add: ascii_def)

lemma three_halves_not_integer: "JNumber (Num (3 / 2)) \<noteq> JNumber (Num (of_int n))"
proof
  assume "JNumber (Num (3 / 2)) = JNumber (Num (of_int n))"
  then have "rat_of_int (2 * n) = rat_of_int 3" by simp
  then have "2 * n = 3" by (simp only: of_int_eq_iff)
  then show False by presburger
qed

lemma encryptPassword_default_rounds:
  assumes "get_prop opts ''numberOfRounds'' = JUndefined"
  shows "encryptPassword P env pw (Some opts) \<noteq> Inl InvalidRoundCount"
    and "encryptPassword P env pw (Some opts)
           = encryptPassword P env pw (Some ((''numberOfRounds'', JNumber (Num 1)) # opts))"
proof -
  have r: "or_default (get_prop opts ''numberOfRounds'') (JNumber (Num 1)) = JNumber (Num 1)"
    using assms by (simp add: or_default_def)
  have i: "integer_value (JNumber (Num 1)) = Some 1"
    by simp
  show "encryptPassword P env pw (Some opts) \<noteq> Inl InvalidRoundCount"
    unfolding encryptPassword_def option.case Let_def r i
    using errors_distinct
    by (auto split: jsval.splits option.splits prod.splits)
  have rounds: "or_default (get_prop ((''numberOfRounds'', JNumber (Num 1)) # opts) ''numberOfRounds'')
                   (JNumber (Num 1))
                 = or_default (get_prop opts ''numberOfRounds'') (JNumber (Num 1))"
    using assms by (simp add: get_prop_Cons or_default_def)
  have len: "get_prop ((''numberOfRounds'', JNumber (Num 1)) # opts) ''outputLength''
               = get_prop opts ''outputLength''"
    and salt: "get_prop ((''numberOfRounds'', JNumber (Num 1)) # opts) ''salt''
               = get_prop opts ''salt''"
    by (simp_all add: get_prop_Cons)
  show "encryptPassword P env pw (Some opts)
          = encryptPassword P env pw (Some ((''numberOfRounds'', JNumber (Num 1)) # opts))"
    unfolding encryptPassword_def option.case Let_def rounds len salt by (rule refl)
qed

lemma store_all_Nil: "store_all buf [] = buf"
  by (simp add: store_all_def)

lemma store_all_Cons: "store_all buf ((i, b) # stores) = store_all (buf[i := b]) stores"
  by (simp add: store_all_def)

lemma store_all_sample: "store_all [0, 0, 0] [(0, 1), (2, 3), (0, 5), (7, 9)] = [5, 0, 3]"
  by (simp add: store_all_Cons store_all_Nil)

section \<open>The length of the result\<close>

text \<open>
  A valid call (string password, rounds omitted or an integer of at least 1, output
  length omitted or an integer of at least 1, string salt of at least
  \<^verbatim>\<open>minSaltLengh\<close> code units) returns a buffer of exactly the requested number of
  bytes, 32 when the output length is omitted: the zero-filled allocation with every
  store of the primitive applied. Conversely a call returns a buffer only if
  every value it was given is valid, and the buffer then has the requested length: no
  invalid value is replaced by a default, and no result is shorter than asked for.
\<close>

theorem encryptPassword_exact_length:
  fixes r L :: int
  shows "((get_prop opts ''numberOfRounds'' = JUndefined \<and> r = 1
             \<or> get_prop opts ''numberOfRounds'' = JNumber (Num (of_int r)) \<and> 1 \<le> r)
          \<and> (get_prop opts ''outputLength'' = JUndefined \<and> L = 32
             \<or> get_prop opts ''outputLength'' = JNumber (Num (of_int L)) \<and> 1 \<le> L)
          \<and> get_prop opts ''salt'' = JString s \<and> minSaltLengh \<le> length s
        \<longrightarrow> (\<exists>buf. encryptPassword P env (JString p) (Some opts) = Inr buf
                  \<and> length buf = nat L
                  \<and> buf = store_all (Buffer_alloc (nat L))
                             (snd (P (Buffer_from p) (length (Buffer_from p)) (Buffer_from s)
                                     (length (Buffer_from s)) (Buffer_alloc (nat L)) L r))))
       \<and> (encryptPassword P env pw (Some opts) = Inr out
        \<longrightarrow> (\<exists>p'. pw = JString p')
            \<and> (get_prop opts ''numberOfRounds'' = JUndefined
                 \<or> (\<exists>n. 1 \<le> n \<and> get_prop opts ''numberOfRounds'' = JNumber (Num (of_int n))))
            \<and> (get_prop opts ''outputLength'' = JUndefined \<and> length out = 32
                 \<or> (\<exists>n. 1 \<le> n \<and> get_prop opts ''outputLength'' = JNumber (Num (of_int n))
                         \<and> length out = nat n))
            \<and> (\<exists>s'. or_default (get_prop opts ''salt'') (get_prop env ''SALT'') = JString s'
                      \<and> minSaltLengh \<le> length s'))"
proof (intro conjI impI)
  assume a: "(get_prop opts ''numberOfRounds'' = JUndefined \<and> r = 1
             \<or> get_prop opts ''numberOfRounds'' = JNumber (Num (of_int r)) \<and> 1 \<le> r)
          \<and> (get_prop opts ''outputLength'' = JUndefined \<and> L = 32
             \<or> get_prop opts ''outputLength'' = JNumber (Num (of_int L)) \<and> 1 \<le> L)
          \<and> get_prop opts ''salt'' = JString s \<and> minSaltLengh \<le> length s"
  have 1: "or_default (get_prop opts ''numberOfRounds'') (JNumber (Num 1)) = JNumber (Num (of_int r))"
    and 2: "1 \<le> r"
    using a by (auto simp: or_default_def)
  have 3: "or_default (get_prop opts ''outputLength'') (JNumber (Num 32)) = JNumber (Num (of_int L))"
    and 4: "1 \<le> L"
    using a by (auto simp: or_default_def)
  have 5: "or_default (get_prop opts ''salt'') (get_prop env ''SALT'') = JString s"
    and 6: "minSaltLengh \<le> length s"
    using a by (auto simp: or_default_def)
  show "\<exists>buf. encryptPassword P env (JString p) (Some opts) = Inr buf
          \<and> length buf = nat L
          \<and> buf = store_all (Buffer_alloc (nat L))
                     (snd (P (Buffer_from p) (length (Buffer_from p)) (Buffer_from s)
                             (length (Buffer_from s)) (Buffer_alloc (nat L)) L r))"
    by (simp add: encryptPassword_returns [OF 1 2 3 4 5 6] length_store_all length_Buffer_alloc)
next
  assume b: "encryptPassword P env pw (Some opts) = Inr out"
  from encryptPassword_Inr_D [OF b] obtain p' n L' s' where
    d: "pw = JString p'"
      "or_default (get_prop opts ''numberOfRounds'') (JNumber (Num 1)) = JNumber (Num (of_int n))"
      "1 \<le> n"
      "or_default (get_prop opts ''outputLength'') (JNumber (Num 32)) = JNumber (Num (of_int L'))"
      "1 \<le> L'"
      "or_default (get_prop opts ''salt'') (get_prop env ''SALT'') = JString s'"
      "minSaltLengh \<le> length s'"
      "length out = nat L'"
    by (auto simp: length_store_all length_Buffer_alloc)
  show "\<exists>p'. pw = JString p'" using d(1) by blast
  show "get_prop opts ''numberOfRounds'' = JUndefined
          \<or> (\<exists>n. 1 \<le> n \<and> get_prop opts ''numberOfRounds'' = JNumber (Num (of_int n)))"
    using d(2,3) by (auto simp: or_default_def split: if_splits)
  show "get_prop opts ''outputLength'' = JUndefined \<and> length out = 32
          \<or> (\<exists>n. 1 \<le> n \<and> get_prop opts ''outputLength'' = JNumber (Num (of_int n))
                  \<and> length out = nat n)"
  proof (cases "get_prop opts ''outputLength'' = JUndefined")
    case True
    with d(4) have "rat_of_int L' = 32" by (simp add: or_default_def)
    then have "L' = 32" by (metis of_int_eq_numeral_iff)
    with True d(8) show ?thesis by simp
  next
    case False
    with d(4,5,8) show ?thesis by (auto simp: or_default_def)
  qed
  show "\<exists>s'. or_default (get_prop opts ''salt'') (get_prop env ''SALT'') = JString s'
          \<and> minSaltLengh \<le> length s'"
    using d(6,7) by blast
qed

theorem encryptPassword_exact_length_witness:
  "(\<exists>buf. encryptPassword pbkdf_sample [] (JString (ascii ''hunter2''))
            (Some [(''outputLength'', JNumber (Num 4)), (''salt'', JString (ascii ''saltsalt''))])
          = Inr buf \<and> length buf = 4)
   \<and> encryptPassword pbkdf_sample [] (JString (ascii ''hunter2''))
            (Some [(''outputLength'', JNumber (Num 4)), (''salt'', JString (ascii ''saltsalt''))])
          = Inr [1, 0, 0, 0]
   \<and> get_prop [(''outputLength'', JNumber (Num 4)), (''salt'', JString (ascii ''saltsalt''))]
         ''numberOfRounds'' = JUndefined
   \<and> length [1, 0, 0, 0 :: byte] = 4"
  using encryptPassword_exact_length
    [of "[(''outputLength'', JNumber (Num 4)), (''salt'', JString (ascii ''saltsalt''))]"
        1 4 "ascii ''saltsalt''" pbkdf_sample "[]" "ascii ''hunter2''"
        "JString (ascii ''hunter2'')" "[1, 0, 0, 0]"]
    sample_call
  by (simp add: get_prop_def ascii_def minSaltLengh_def)

section \<open>The claims\<close>

text \<open>
  C1. The length part of the claim holds (\<open>encryptPassword_exact_length\<close>); the
  contents part does not. The wrapper calls the primitive as a statement and drops what it
  returns (source lines 89 to 98). When the primitive rejects its arguments, reporting so
  in its status and storing nothing, the call still returns: its result is the untouched
  zero-filled allocation, the same for every password and salt, whatever the status was.
\<close>

theorem rejected_derivation_returned:
  fixes r L status :: int
  shows "(get_prop opts ''numberOfRounds'' = JUndefined \<and> r = 1
            \<or> get_prop opts ''numberOfRounds'' = JNumber (Num (of_int r)) \<and> 1 \<le> r)
         \<and> (get_prop opts ''outputLength'' = JUndefined \<and> L = 32
            \<or> get_prop opts ''outputLength'' = JNumber (Num (of_int L)) \<and> 1 \<le> L)
         \<and> or_default (get_prop opts ''salt'') (get_prop env ''SALT'') = JString s
         \<and> minSaltLengh \<le> length s
         \<and> P (Buffer_from p) (length (Buffer_from p)) (Buffer_from s) (length (Buffer_from s))
              (Buffer_alloc (nat L)) L r = (status, [])
       \<longrightarrow> encryptPassword P env (JString p) (Some opts) = Inr (replicate (nat L) 0)"
proof
  assume a: "(get_prop opts ''numberOfRounds'' = JUndefined \<and> r = 1
            \<or> get_prop opts ''numberOfRounds'' = JNumber (Num (of_int r)) \<and> 1 \<le> r)
         \<and> (get_prop opts ''outputLength'' = JUndefined \<and> L = 32
            \<or> get_prop opts ''outputLength'' = JNumber (Num (of_int L)) \<and> 1 \<le> L)
         \<and> or_default (get_prop opts ''salt'') (get_prop env ''SALT'') = JString s
         \<and> minSaltLengh \<le> length s
         \<and> P (Buffer_from p) (length (Buffer_from p)) (Buffer_from s) (length (Buffer_from s))
              (Buffer_alloc (nat L)) L r = (status, [])"
  have 1: "or_default (get_prop opts ''numberOfRounds'') (JNumber (Num 1)) = JNumber (Num (of_int r))"
    and 2: "1 \<le> r"
    using a by (auto simp: or_default_def)
  have 3: "or_default (get_prop opts ''outputLength'') (JNumber (Num 32)) = JNumber (Num (of_int L))"
    and 4: "1 \<le> L"
    using a by (auto simp: or_default_def)
  have 5: "or_default (get_prop opts ''salt'') (get_prop env ''SALT'') = JString s"
    and 6: "minSaltLengh \<le> length s"
    using a by simp_all
  have rejected: "P (Buffer_from p) (length (Buffer_from p)) (Buffer_from s)
                    (length (Buffer_from s)) (Buffer_alloc (nat L)) L r = (status, [])"
    using a by simp
  show "encryptPassword P env (JString p) (Some opts) = Inr (replicate (nat L) 0)"
    unfolding encryptPassword_returns [OF 1 2 3 4 5 6, of P p] rejected
    by (simp add: store_all_Nil Buffer_alloc_def)
qed

theorem rejected_derivation_returned_witness:
  "encryptPassword (\<lambda>pass passlen salt saltlen key keylen rounds. (- 1, [])) []
       (JString []) (Some [(''salt'', JString (ascii ''saltsalt''))])
     = Inr (replicate 32 0)
   \<and> encryptPassword (\<lambda>pass passlen salt saltlen key keylen rounds. (- 1, [])) []
       (JString (ascii ''hunter2''))
       (Some [(''outputLength'', JNumber (Num 1025)), (''salt'', JString (ascii ''saltsalt''))])
     = Inr (replicate 1025 0)"
proof -
  have empty: "(get_prop [(''salt'', JString (ascii ''saltsalt''))] ''numberOfRounds'' = JUndefined
              \<and> (1 :: int) = 1
            \<or> get_prop [(''salt'', JString (ascii ''saltsalt''))] ''numberOfRounds''
                = JNumber (Num (of_int 1)) \<and> (1 :: int) \<le> 1)
         \<and> (get_prop [(''salt'', JString (ascii ''saltsalt''))] ''outputLength'' = JUndefined
              \<and> (32 :: int) = 32
            \<or> get_prop [(''salt'', JString (ascii ''saltsalt''))] ''outputLength''
                = JNumber (Num (of_int 32)) \<and> (1 :: int) \<le> 32)
         \<and> or_default (get_prop [(''salt'', JString (ascii ''saltsalt''))] ''salt'')
              (get_prop [] ''SALT'') = JString (ascii ''saltsalt'')
         \<and> minSaltLengh \<le> length (ascii ''saltsalt'')
         \<and> (\<lambda>pass passlen salt saltlen key keylen rounds. (- 1 :: int, []))
              (Buffer_from []) (length (Buffer_from [])) (Buffer_from (ascii ''saltsalt''))
              (length (Buffer_from (ascii ''saltsalt''))) (Buffer_alloc (nat 32)) 32 1
            = (- 1, [])"
    by (simp add: get_prop_def or_default_def length_ascii minSaltLengh_def)
  have long: "(get_prop [(''outputLength'', JNumber (Num 1025)),
                         (''salt'', JString (ascii ''saltsalt''))] ''numberOfRounds'' = JUndefined
              \<and> (1 :: int) = 1
            \<or> get_prop [(''outputLength'', JNumber (Num 1025)),
                         (''salt'', JString (ascii ''saltsalt''))] ''numberOfRounds''
                = JNumber (Num (of_int 1)) \<and> (1 :: int) \<le> 1)
         \<and> (get_prop [(''outputLength'', JNumber (Num 1025)),
                         (''salt'', JString (ascii ''saltsalt''))] ''outputLength'' = JUndefined
              \<and> (1025 :: int) = 32
            \<or> get_prop [(''outputLength'', JNumber (Num 1025)),
                         (''salt'', JString (ascii ''saltsalt''))] ''outputLength''
                = JNumber (Num (of_int 1025)) \<and> (1 :: int) \<le> 1025)
         \<and> or_default (get_prop [(''outputLength'', JNumber (Num 1025)),
                         (''salt'', JString (ascii ''saltsalt''))] ''salt'')
              (get_prop [] ''SALT'') = JString (ascii ''saltsalt'')
         \<and> minSaltLengh \<le> length (ascii ''saltsalt'')
         \<and> (\<lambda>pass passlen salt saltlen key keylen rounds. (- 1 :: int, []))
              (Buffer_from (ascii ''hunter2'')) (length (Buffer_from (ascii ''hunter2'')))
              (Buffer_from (ascii ''saltsalt''))
              (length (Buffer_from (ascii ''saltsalt''))) (Buffer_alloc (nat 1025)) 1025 1
            = (- 1, [])"
    by (simp add: get_prop_def or_default_def length_ascii minSaltLengh_def)
  from rejected_derivation_returned
    [of "[(''salt'', JString (ascii ''saltsalt''))]" 1 32 "[]" "ascii ''saltsalt''"
        "\<lambda>pass passlen salt saltlen key keylen rounds. (- 1, [])" "[]" "- 1"]
    empty
  have 1: "encryptPassword (\<lambda>pass passlen salt saltlen key keylen rounds. (- 1, [])) []
       (JString []) (Some [(''salt'', JString (ascii ''saltsalt''))])
     = Inr (replicate (nat 32) 0)"
    by blast
  from rejected_derivation_returned
    [of "[(''outputLength'', JNumber (Num 1025)), (''salt'', JString (ascii ''saltsalt''))]"
        1 1025 "[]" "ascii ''saltsalt''"
        "\<lambda>pass passlen salt saltlen key keylen rounds. (- 1, [])" "ascii ''hunter2''" "- 1"]
    long
  have 2: "encryptPassword (\<lambda>pass passlen salt saltlen key keylen rounds. (- 1, [])) []
       (JString (ascii ''hunter2''))
       (Some [(''outputLength'', JNumber (Num 1025)), (''salt'', JString (ascii ''saltsalt''))])
     = Inr (replicate (nat 1025) 0)"
    by blast
  from 1 2 show ?thesis by simp
qed

text \<open>
  C2. The result is a function of the password and of the three options alone: two calls
  that agree on the password, the rounds, the output length and an explicitly supplied
  salt return the same value (the same bytes or the same error), whatever the two
  environments hold and whatever else the two option objects contain.
\<close>

theorem encryptPassword_deterministic:
  "get_prop o1 ''numberOfRounds'' = get_prop o2 ''numberOfRounds''
   \<and> get_prop o1 ''outputLength'' = get_prop o2 ''outputLength''
   \<and> get_prop o1 ''salt'' = get_prop o2 ''salt''
   \<and> get_prop o1 ''salt'' \<noteq> JUndefined
   \<longrightarrow> encryptPassword P env1 pw (Some o1) = encryptPassword P env2 pw (Some o2)"
proof (intro impI, elim conjE)
  assume rounds: "get_prop o1 ''numberOfRounds'' = get_prop o2 ''numberOfRounds''"
    and len: "get_prop o1 ''outputLength'' = get_prop o2 ''outputLength''"
    and salt: "get_prop o1 ''salt'' = get_prop o2 ''salt''"
    and given: "get_prop o1 ''salt'' \<noteq> JUndefined"
  have resolved: "or_default (get_prop o1 ''salt'') (get_prop env1 ''SALT'')
                    = or_default (get_prop o2 ''salt'') (get_prop env2 ''SALT'')"
    using salt given by (simp add: or_default_def)
  show "encryptPassword P env1 pw (Some o1) = encryptPassword P env2 pw (Some o2)"
    unfolding encryptPassword_def option.case Let_def rounds len resolved by (rule refl)
qed

theorem encryptPassword_deterministic_witness:
  "encryptPassword pbkdf_sample [(''SALT'', JString (ascii ''environment''))]
       (JString (ascii ''hunter2''))
       (Some [(''salt'', JString (ascii ''saltsalt'')), (''outputLength'', JNumber (Num 4))])
   = encryptPassword pbkdf_sample []
       (JString (ascii ''hunter2''))
       (Some [(''outputLength'', JNumber (Num 4)), (''other'', JNull),
              (''salt'', JString (ascii ''saltsalt''))])"
  using encryptPassword_deterministic
    [of "[(''salt'', JString (ascii ''saltsalt'')), (''outputLength'', JNumber (Num 4))]"
        "[(''outputLength'', JNumber (Num 4)), (''other'', JNull),
          (''salt'', JString (ascii ''saltsalt''))]"
        pbkdf_sample "[(''SALT'', JString (ascii ''environment''))]"
        "JString (ascii ''hunter2'')" "[]"]
  by (simp add: get_prop_def)

text \<open>
  C9. The empty password is accepted: with valid rounds, output length and salt the call
  returns a buffer of exactly the requested length, and the primitive is handed an empty
  password buffer of length 0.
\<close>

theorem empty_password_accepted:
  fixes r L :: int
  shows "(get_prop opts ''numberOfRounds'' = JUndefined \<and> r = 1
            \<or> get_prop opts ''numberOfRounds'' = JNumber (Num (of_int r)) \<and> 1 \<le> r)
         \<and> (get_prop opts ''outputLength'' = JUndefined \<and> L = 32
            \<or> get_prop opts ''outputLength'' = JNumber (Num (of_int L)) \<and> 1 \<le> L)
         \<and> or_default (get_prop opts ''salt'') (get_prop env ''SALT'') = JString s
         \<and> minSaltLengh \<le> length s
       \<longrightarrow> (\<exists>buf. encryptPassword P env (JString []) (Some opts) = Inr buf
                 \<and> length buf = nat L
                 \<and> buf = store_all (Buffer_alloc (nat L))
                            (snd (P [] 0 (Buffer_from s) (length (Buffer_from s))
                                    (Buffer_alloc (nat L)) L r)))"
proof
  assume a: "(get_prop opts ''numberOfRounds'' = JUndefined \<and> r = 1
            \<or> get_prop opts ''numberOfRounds'' = JNumber (Num (of_int r)) \<and> 1 \<le> r)
         \<and> (get_prop opts ''outputLength'' = JUndefined \<and> L = 32
            \<or> get_prop opts ''outputLength'' = JNumber (Num (of_int L)) \<and> 1 \<le> L)
         \<and> or_default (get_prop opts ''salt'') (get_prop env ''SALT'') = JString s
         \<and> minSaltLengh \<le> length s"
  have 1: "or_default (get_prop opts ''numberOfRounds'') (JNumber (Num 1)) = JNumber (Num (of_int r))"
    and 2: "1 \<le> r"
    using a by (auto simp: or_default_def)
  have 3: "or_default (get_prop opts ''outputLength'') (JNumber (Num 32)) = JNumber (Num (of_int L))"
    and 4: "1 \<le> L"
    using a by (auto simp: or_default_def)
  have 5: "or_default (get_prop opts ''salt'') (get_prop env ''SALT'') = JString s"
    and 6: "minSaltLengh \<le> length s"
    using a by simp_all
  show "\<exists>buf. encryptPassword P env (JString []) (Some opts) = Inr buf
          \<and> length buf = nat L
          \<and> buf = store_all (Buffer_alloc (nat L))
                     (snd (P [] 0 (Buffer_from s) (length (Buffer_from s))
                             (Buffer_alloc (nat L)) L r))"
    using encryptPassword_returns [OF 1 2 3 4 5 6, of P "[]"]
    by (simp add: length_store_all length_Buffer_alloc)
qed

theorem empty_password_accepted_witness:
  "\<exists>buf. encryptPassword pbkdf_sample [] (JString [])
           (Some [(''outputLength'', JNumber (Num 4)), (''salt'', JString (ascii ''saltsalt''))])
         = Inr buf
       \<and> length buf = 4
       \<and> buf = [1, 0, 0, 0]"
  using empty_password_accepted
    [of "[(''outputLength'', JNumber (Num 4)), (''salt'', JString (ascii ''saltsalt''))]"
        1 4 "[]" "ascii ''saltsalt''" pbkdf_sample]
  by (simp add: get_prop_def or_default_def ascii_def minSaltLengh_def pbkdf_sample_def
      store_all_def Buffer_alloc_def numeral_eq_Suc)

text \<open>
  C10. An options object whose \<^verbatim>\<open>salt\<close> property holds \<^verbatim>\<open>undefined\<close> behaves as one
  without that property: the two calls return the same value, which is also the value of
  the call with \<^verbatim>\<open>salt\<close> set to what \<^verbatim>\<open>env.SALT\<close> holds. The \<^verbatim>\<open>undefined\<close> is not
  itself rejected: when \<^verbatim>\<open>env.SALT\<close> is a string of at least \<^verbatim>\<open>minSaltLengh\<close> code
  units and the other inputs are valid, the call returns a buffer.
\<close>

theorem salt_undefined_as_omitted:
  "(map_of o1 ''salt'' = Some JUndefined \<and> map_of o2 ''salt'' = None
      \<and> get_prop o1 ''numberOfRounds'' = get_prop o2 ''numberOfRounds''
      \<and> get_prop o1 ''outputLength'' = get_prop o2 ''outputLength''
    \<longrightarrow> encryptPassword P env pw (Some o1) = encryptPassword P env pw (Some o2)
        \<and> encryptPassword P env pw (Some o1)
            = encryptPassword P env pw (Some ((''salt'', get_prop env ''SALT'') # o2)))
   \<and> (map_of o1 ''salt'' = Some JUndefined
      \<and> omitted_or_positive (get_prop o1 ''numberOfRounds'')
      \<and> omitted_or_positive (get_prop o1 ''outputLength'')
      \<and> get_prop env ''SALT'' = JString s \<and> minSaltLengh \<le> length s
    \<longrightarrow> (\<exists>buf. encryptPassword P env (JString p) (Some o1) = Inr buf))"
proof (intro conjI impI)
  assume a: "map_of o1 ''salt'' = Some JUndefined \<and> map_of o2 ''salt'' = None
      \<and> get_prop o1 ''numberOfRounds'' = get_prop o2 ''numberOfRounds''
      \<and> get_prop o1 ''outputLength'' = get_prop o2 ''outputLength''"
  then have rounds: "get_prop o1 ''numberOfRounds'' = get_prop o2 ''numberOfRounds''"
    and len: "get_prop o1 ''outputLength'' = get_prop o2 ''outputLength''"
    and salt1: "get_prop o1 ''salt'' = JUndefined"
    and salt2: "get_prop o2 ''salt'' = JUndefined"
    by (simp_all add: get_prop_def)
  have salt: "get_prop o1 ''salt'' = get_prop o2 ''salt''"
    using salt1 salt2 by simp
  show same: "encryptPassword P env pw (Some o1) = encryptPassword P env pw (Some o2)"
    unfolding encryptPassword_def option.case Let_def rounds len salt by (rule refl)
  show "encryptPassword P env pw (Some o1)
          = encryptPassword P env pw (Some ((''salt'', get_prop env ''SALT'') # o2))"
    using same encryptPassword_resolve_salt [OF salt2] by simp
next
  assume b: "map_of o1 ''salt'' = Some JUndefined
      \<and> omitted_or_positive (get_prop o1 ''numberOfRounds'')
      \<and> omitted_or_positive (get_prop o1 ''outputLength'')
      \<and> get_prop env ''SALT'' = JString s \<and> minSaltLengh \<le> length s"
  then have "or_default (get_prop o1 ''salt'') (get_prop env ''SALT'') = JString s"
    by (simp add: get_prop_def or_default_def)
  with b show "\<exists>buf. encryptPassword P env (JString p) (Some o1) = Inr buf"
    using encryptPassword_valid by blast
qed

theorem salt_undefined_as_omitted_witness:
  "encryptPassword pbkdf_sample [(''SALT'', JString (ascii ''environment''))]
       (JString (ascii ''hunter2'')) (Some [(''salt'', JUndefined)])
     = encryptPassword pbkdf_sample [(''SALT'', JString (ascii ''environment''))]
       (JString (ascii ''hunter2'')) (Some [])
   \<and> encryptPassword pbkdf_sample [(''SALT'', JString (ascii ''environment''))]
       (JString (ascii ''hunter2'')) (Some [(''salt'', JUndefined)])
     = encryptPassword pbkdf_sample [(''SALT'', JString (ascii ''environment''))]
       (JString (ascii ''hunter2'')) (Some [(''salt'', JString (ascii ''environment''))])
   \<and> (\<exists>buf. encryptPassword pbkdf_sample [(''SALT'', JString (ascii ''environment''))]
       (JString (ascii ''hunter2'')) (Some [(''salt'', JUndefined)]) = Inr buf)"
proof -
  have a: "map_of [(''salt'', JUndefined)] ''salt'' = Some JUndefined
      \<and> map_of ([] :: object) ''salt'' = None
      \<and> get_prop [(''salt'', JUndefined)] ''numberOfRounds'' = get_prop [] ''numberOfRounds''
      \<and> get_prop [(''salt'', JUndefined)] ''outputLength'' = get_prop [] ''outputLength''"
    by (simp add: get_prop_def)
  have b: "map_of [(''salt'', JUndefined)] ''salt'' = Some JUndefined
      \<and> omitted_or_positive (get_prop [(''salt'', JUndefined)] ''numberOfRounds'')
      \<and> omitted_or_positive (get_prop [(''salt'', JUndefined)] ''outputLength'')
      \<and> get_prop [(''SALT'', JString (ascii ''environment''))] ''SALT''
            = JString (ascii ''environment'')
      \<and> minSaltLengh \<le> length (ascii ''environment'')"
    by (simp add: get_prop_def omitted_or_positive_def ascii_def minSaltLengh_def)
  have e: "get_prop [(''SALT'', JString (ascii ''environment''))] ''SALT''
             = JString (ascii ''environment'')"
    by (simp add: get_prop_def)
  note T = salt_undefined_as_omitted
      [of "[(''salt'', JUndefined)]" "[]" pbkdf_sample
          "[(''SALT'', JString (ascii ''environment''))]" "JString (ascii ''hunter2'')"
          "ascii ''environment''" "ascii ''hunter2''"]
  have c1: "encryptPassword pbkdf_sample [(''SALT'', JString (ascii ''environment''))]
       (JString (ascii ''hunter2'')) (Some [(''salt'', JUndefined)])
     = encryptPassword pbkdf_sample [(''SALT'', JString (ascii ''environment''))]
       (JString (ascii ''hunter2'')) (Some [])
   \<and> encryptPassword pbkdf_sample [(''SALT'', JString (ascii ''environment''))]
       (JString (ascii ''hunter2'')) (Some [(''salt'', JUndefined)])
     = encryptPassword pbkdf_sample [(''SALT'', JString (ascii ''environment''))]
       (JString (ascii ''hunter2'')) (Some [(''salt'', JString (ascii ''environment''))])"
    using T [THEN conjunct1, THEN mp, OF a] unfolding e .
  have c2: "\<exists>buf. encryptPassword pbkdf_sample [(''SALT'', JString (ascii ''environment''))]
       (JString (ascii ''hunter2'')) (Some [(''salt'', JUndefined)]) = Inr buf"
    using T [THEN conjunct2, THEN mp, OF b] .
  from c1 c2 show ?thesis by blast
qed



text \<open>
  C8. The default salt is read from the environment at each call. A call without the
  \<^verbatim>\<open>salt\<close> option returns what the call with \<^verbatim>\<open>salt\<close> set to the current value of
  \<^verbatim>\<open>env.SALT\<close> returns, errors included. So after a module load that succeeded on a
  valid \<^verbatim>\<open>SALT\<close>, a call made once \<^verbatim>\<open>SALT\<close> has been changed to a short string fails
  with the salt error, where the same call under the unchanged environment returns a
  buffer.
\<close>

theorem default_salt_read_at_call:
  "(get_prop opts ''salt'' = JUndefined
      \<longrightarrow> encryptPassword P env pw (Some opts)
            = encryptPassword P env pw (Some ((''salt'', get_prop env ''SALT'') # opts)))
   \<and> encryptPassword P env pw None
        = encryptPassword P env pw (Some [(''salt'', get_prop env ''SALT'')])
   \<and> (get_prop opts ''salt'' = JUndefined
        \<and> omitted_or_positive (get_prop opts ''numberOfRounds'')
        \<and> omitted_or_positive (get_prop opts ''outputLength'')
        \<and> get_prop env0 ''SALT'' = JString s0 \<and> minSaltLengh \<le> length s0
        \<and> get_prop env1 ''SALT'' = JString s1 \<and> length s1 < minSaltLengh
      \<longrightarrow> module_load env0 = Inr ()
          \<and> (\<exists>buf. encryptPassword P env0 (JString p) (Some opts) = Inr buf)
          \<and> encryptPassword P env1 (JString p) (Some opts) = Inl SaltTooShort)"
proof (intro conjI impI)
  assume "get_prop opts ''salt'' = JUndefined"
  then show "encryptPassword P env pw (Some opts)
               = encryptPassword P env pw (Some ((''salt'', get_prop env ''SALT'') # opts))"
    by (rule encryptPassword_resolve_salt)
next
  have "get_prop [] ''salt'' = JUndefined"
    by (simp add: get_prop_def)
  then show "encryptPassword P env pw None
               = encryptPassword P env pw (Some [(''salt'', get_prop env ''SALT'')])"
    using encryptPassword_resolve_salt [of "[]" P env pw]
    by (simp add: encryptPassword_None)
next
  assume a: "get_prop opts ''salt'' = JUndefined
        \<and> omitted_or_positive (get_prop opts ''numberOfRounds'')
        \<and> omitted_or_positive (get_prop opts ''outputLength'')
        \<and> get_prop env0 ''SALT'' = JString s0 \<and> minSaltLengh \<le> length s0
        \<and> get_prop env1 ''SALT'' = JString s1 \<and> length s1 < minSaltLengh"
  then have r0: "or_default (get_prop opts ''salt'') (get_prop env0 ''SALT'') = JString s0"
    and r1: "or_default (get_prop opts ''salt'') (get_prop env1 ''SALT'') = JString s1"
    by (simp_all add: or_default_def)
  show "module_load env0 = Inr ()"
    using a by (simp add: module_load_def validateSaltVariable_def)
  show "\<exists>buf. encryptPassword P env0 (JString p) (Some opts) = Inr buf"
    using a r0 encryptPassword_valid by blast
  show "encryptPassword P env1 (JString p) (Some opts) = Inl SaltTooShort"
    using a r1 encryptPassword_salt_short by blast
qed

theorem default_salt_read_at_call_witness:
  "encryptPassword pbkdf_sample [(''SALT'', JString (ascii ''short''))]
       (JString (ascii ''hunter2'')) (Some [])
     = encryptPassword pbkdf_sample [(''SALT'', JString (ascii ''short''))]
       (JString (ascii ''hunter2''))
       (Some [(''salt'', get_prop [(''SALT'', JString (ascii ''short''))] ''SALT'')])
   \<and> module_load [(''SALT'', JString (ascii ''environment''))] = Inr ()
   \<and> (\<exists>buf. encryptPassword pbkdf_sample [(''SALT'', JString (ascii ''environment''))]
         (JString (ascii ''hunter2'')) (Some []) = Inr buf)
   \<and> encryptPassword pbkdf_sample [(''SALT'', JString (ascii ''short''))]
         (JString (ascii ''hunter2'')) (Some []) = Inl SaltTooShort"
proof -
  have omitted: "get_prop [] ''salt'' = JUndefined"
    by (simp add: get_prop_def)
  have changed: "get_prop [] ''salt'' = JUndefined
        \<and> omitted_or_positive (get_prop [] ''numberOfRounds'')
        \<and> omitted_or_positive (get_prop [] ''outputLength'')
        \<and> get_prop [(''SALT'', JString (ascii ''environment''))] ''SALT''
             = JString (ascii ''environment'')
        \<and> minSaltLengh \<le> length (ascii ''environment'')
        \<and> get_prop [(''SALT'', JString (ascii ''short''))] ''SALT'' = JString (ascii ''short'')
        \<and> length (ascii ''short'') < minSaltLengh"
    by (simp add: get_prop_def omitted_or_positive_def ascii_def minSaltLengh_def)
  note T = default_salt_read_at_call
      [of "[]" pbkdf_sample "[(''SALT'', JString (ascii ''short''))]"
          "JString (ascii ''hunter2'')"
          "[(''SALT'', JString (ascii ''environment''))]" "ascii ''environment''"
          "[(''SALT'', JString (ascii ''short''))]" "ascii ''short''" "ascii ''hunter2''"]
  from T omitted have 1: "encryptPassword pbkdf_sample [(''SALT'', JString (ascii ''short''))]
       (JString (ascii ''hunter2'')) (Some [])
     = encryptPassword pbkdf_sample [(''SALT'', JString (ascii ''short''))]
       (JString (ascii ''hunter2''))
       (Some [(''salt'', get_prop [(''SALT'', JString (ascii ''short''))] ''SALT'')])"
    by blast
  from T changed have 2: "module_load [(''SALT'', JString (ascii ''environment''))] = Inr ()
   \<and> (\<exists>buf. encryptPassword pbkdf_sample [(''SALT'', JString (ascii ''environment''))]
         (JString (ascii ''hunter2'')) (Some []) = Inr buf)
   \<and> encryptPassword pbkdf_sample [(''SALT'', JString (ascii ''short''))]
         (JString (ascii ''hunter2'')) (Some []) = Inl SaltTooShort"
    by blast
  from 1 2 show ?thesis by blast
qed

text \<open>
  C7. Module load. With \<^verbatim>\<open>SALT\<close> absent the load succeeds. With \<^verbatim>\<open>SALT\<close> present and
  not a string, or a string of fewer than 8 bytes, or of fewer than 8 code units, the load
  throws. The rule is the per-call one: for a \<^verbatim>\<open>SALT\<close> that is present, the load
  succeeds exactly when a call that passes this value as its \<^verbatim>\<open>salt\<close> (other inputs
  valid) returns a buffer.
\<close>

theorem module_load_salt_rule:
  "(get_prop env ''SALT'' = JUndefined \<longrightarrow> module_load env = Inr ())
   \<and> (get_prop env ''SALT'' \<noteq> JUndefined \<and> (\<forall>s. get_prop env ''SALT'' \<noteq> JString s)
        \<longrightarrow> module_load env = Inl SaltVariableInvalid)
   \<and> (get_prop env ''SALT'' = JString s \<and> length (Buffer_from s) < 8
        \<longrightarrow> module_load env = Inl SaltVariableInvalid)
   \<and> (get_prop env ''SALT'' = JString s \<and> length s < 8
        \<longrightarrow> module_load env = Inl SaltVariableInvalid)
   \<and> (get_prop env ''SALT'' \<noteq> JUndefined
        \<longrightarrow> (module_load env = Inr ()
              \<longleftrightarrow> (\<exists>buf. encryptPassword P env' (JString p)
                             (Some [(''salt'', get_prop env ''SALT'')]) = Inr buf)))"
proof (intro conjI impI)
  assume "get_prop env ''SALT'' = JUndefined"
  then show "module_load env = Inr ()"
    by (simp add: module_load_def validateSaltVariable_def)
next
  assume "get_prop env ''SALT'' \<noteq> JUndefined \<and> (\<forall>s. get_prop env ''SALT'' \<noteq> JString s)"
  then show "module_load env = Inl SaltVariableInvalid"
    by (simp add: module_load_def validateSaltVariable_def split: jsval.splits)
next
  assume a: "get_prop env ''SALT'' = JString s \<and> length (Buffer_from s) < 8"
  have "length s \<le> length (Buffer_from s)"
    by (rule length_le_Buffer_from)
  with a show "module_load env = Inl SaltVariableInvalid"
    by (simp add: module_load_def validateSaltVariable_def minSaltLengh_def)
next
  assume "get_prop env ''SALT'' = JString s \<and> length s < 8"
  then show "module_load env = Inl SaltVariableInvalid"
    by (simp add: module_load_def validateSaltVariable_def minSaltLengh_def)
next
  assume present: "get_prop env ''SALT'' \<noteq> JUndefined"
  let ?opts = "[(''salt'', get_prop env ''SALT'')]"
  have r: "or_default (get_prop ?opts ''salt'') (get_prop env' ''SALT'') = get_prop env ''SALT''"
    using present by (simp add: get_prop_def or_default_def)
  have v: "omitted_or_positive (get_prop ?opts ''numberOfRounds'')"
      "omitted_or_positive (get_prop ?opts ''outputLength'')"
    by (simp_all add: get_prop_def omitted_or_positive_def)
  show "module_load env = Inr ()
          \<longleftrightarrow> (\<exists>buf. encryptPassword P env' (JString p) (Some ?opts) = Inr buf)"
  proof
    assume ok: "module_load env = Inr ()"
    with present obtain t where t: "get_prop env ''SALT'' = JString t" "minSaltLengh \<le> length t"
      by (auto simp: module_load_def validateSaltVariable_def split: jsval.splits if_splits)
    with r v show "\<exists>buf. encryptPassword P env' (JString p) (Some ?opts) = Inr buf"
      using encryptPassword_valid [of ?opts env' t P p] by simp
  next
    assume "\<exists>buf. encryptPassword P env' (JString p) (Some ?opts) = Inr buf"
    then obtain buf where "encryptPassword P env' (JString p) (Some ?opts) = Inr buf" ..
    from encryptPassword_Inr_D [OF this] r obtain t where
      "get_prop env ''SALT'' = JString t" "minSaltLengh \<le> length t"
      by auto
    then show "module_load env = Inr ()"
      by (simp add: module_load_def validateSaltVariable_def)
  qed
qed

theorem module_load_salt_rule_witness:
  "module_load [] = Inr ()
   \<and> module_load [(''SALT'', JNumber (Num 12345678))] = Inl SaltVariableInvalid
   \<and> module_load [(''SALT'', JString (ascii ''short''))] = Inl SaltVariableInvalid
   \<and> (module_load [(''SALT'', JString (ascii ''environment''))] = Inr ()
        \<longleftrightarrow> (\<exists>buf. encryptPassword pbkdf_sample [] (JString (ascii ''hunter2''))
               (Some [(''salt'', get_prop [(''SALT'', JString (ascii ''environment''))] ''SALT'')])
             = Inr buf))"
proof -
  have absent: "get_prop [] ''SALT'' = JUndefined"
    by (simp add: get_prop_def)
  have number: "get_prop [(''SALT'', JNumber (Num 12345678))] ''SALT'' \<noteq> JUndefined
        \<and> (\<forall>s. get_prop [(''SALT'', JNumber (Num 12345678))] ''SALT'' \<noteq> JString s)"
    by (simp add: get_prop_def)
  have short: "get_prop [(''SALT'', JString (ascii ''short''))] ''SALT'' = JString (ascii ''short'')
        \<and> length (Buffer_from (ascii ''short'')) < 8"
    by (simp add: get_prop_def ascii_def)
  have present: "get_prop [(''SALT'', JString (ascii ''environment''))] ''SALT'' \<noteq> JUndefined"
    by (simp add: get_prop_def)
  from module_load_salt_rule [of "[]"] absent
  have 1: "module_load [] = Inr ()"
    by blast
  from module_load_salt_rule [of "[(''SALT'', JNumber (Num 12345678))]"] number
  have 2: "module_load [(''SALT'', JNumber (Num 12345678))] = Inl SaltVariableInvalid"
    by blast
  from module_load_salt_rule [of "[(''SALT'', JString (ascii ''short''))]" "ascii ''short''"] short
  have 3: "module_load [(''SALT'', JString (ascii ''short''))] = Inl SaltVariableInvalid"
    by blast
  from module_load_salt_rule
    [of "[(''SALT'', JString (ascii ''environment''))]" _ pbkdf_sample "[]" "ascii ''hunter2''"]
    present
  have 4: "module_load [(''SALT'', JString (ascii ''environment''))] = Inr ()
        \<longleftrightarrow> (\<exists>buf. encryptPassword pbkdf_sample [] (JString (ascii ''hunter2''))
               (Some [(''salt'', get_prop [(''SALT'', JString (ascii ''environment''))] ''SALT'')])
             = Inr buf)"
    by blast
  from 1 2 3 4 show ?thesis by blast
qed

text \<open>
  C4. The invalid-input matrix. With a string password, rounds 0 raises the rounds error.
  With valid rounds, output length 0 raises the output-length error. With both valid, the
  salt \<^verbatim>\<open>"short"\<close> (5 code units, 5 bytes) raises the salt error. A password that is
  not a string (a number, say) raises the password error. Each error is decided before
  the primitive is called: the same call raises the same error whatever the primitive is.
\<close>

theorem invalid_input_matrix:
  "(get_prop opts ''numberOfRounds'' = JNumber (Num 0)
      \<longrightarrow> encryptPassword P env (JString p) (Some opts) = Inl InvalidRoundCount)
   \<and> (omitted_or_positive (get_prop opts ''numberOfRounds'')
        \<and> get_prop opts ''outputLength'' = JNumber (Num 0)
      \<longrightarrow> encryptPassword P env (JString p) (Some opts) = Inl InvalidOutputLength)
   \<and> (omitted_or_positive (get_prop opts ''numberOfRounds'')
        \<and> omitted_or_positive (get_prop opts ''outputLength'')
        \<and> get_prop opts ''salt'' = JString (ascii ''short'')
      \<longrightarrow> encryptPassword P env (JString p) (Some opts) = Inl SaltTooShort
          \<and> InvalidSalt SaltTooShort
          \<and> length (Buffer_from (ascii ''short'')) = 5)
   \<and> ((\<forall>q. pw \<noteq> JString q)
      \<longrightarrow> encryptPassword P env pw options = Inl InvalidPassword)
   \<and> encryptPassword P env (JNumber x) options = Inl InvalidPassword
   \<and> (encryptPassword P env pw options = Inl e
      \<longrightarrow> encryptPassword P' env pw options = Inl e)"
proof (intro conjI impI)
  assume a: "get_prop opts ''numberOfRounds'' = JNumber (Num 0)"
  have "get_prop opts ''numberOfRounds'' \<noteq> JUndefined"
    using a by simp
  moreover have "\<forall>n. 1 \<le> n \<longrightarrow> get_prop opts ''numberOfRounds'' \<noteq> JNumber (Num (of_int n))"
    using a by auto
  ultimately show "encryptPassword P env (JString p) (Some opts) = Inl InvalidRoundCount"
    by (rule encryptPassword_bad_rounds)
next
  assume a: "omitted_or_positive (get_prop opts ''numberOfRounds'')
        \<and> get_prop opts ''outputLength'' = JNumber (Num 0)"
  have "get_prop opts ''outputLength'' \<noteq> JUndefined"
    using a by simp
  moreover have "\<forall>n. 1 \<le> n \<longrightarrow> get_prop opts ''outputLength'' \<noteq> JNumber (Num (of_int n))"
    using a by auto
  ultimately show "encryptPassword P env (JString p) (Some opts) = Inl InvalidOutputLength"
    using a encryptPassword_bad_length by blast
next
  assume a: "omitted_or_positive (get_prop opts ''numberOfRounds'')
        \<and> omitted_or_positive (get_prop opts ''outputLength'')
        \<and> get_prop opts ''salt'' = JString (ascii ''short'')"
  then have "or_default (get_prop opts ''salt'') (get_prop env ''SALT'') = JString (ascii ''short'')"
    by (simp add: or_default_def)
  moreover have "length (ascii ''short'') < minSaltLengh"
    by (simp add: length_ascii minSaltLengh_def)
  ultimately show "encryptPassword P env (JString p) (Some opts) = Inl SaltTooShort"
    using a encryptPassword_salt_short by blast
  show "InvalidSalt SaltTooShort"
    by (simp add: InvalidSalt_def)
  show "length (Buffer_from (ascii ''short'')) = 5"
    by (simp add: ascii_def)
next
  assume "\<forall>q. pw \<noteq> JString q"
  then show "encryptPassword P env pw options = Inl InvalidPassword"
    by (rule encryptPassword_not_string)
next
  show "encryptPassword P env (JNumber x) options = Inl InvalidPassword"
    by (rule encryptPassword_not_string) simp
next
  assume "encryptPassword P env pw options = Inl e"
  then show "encryptPassword P' env pw options = Inl e"
    by (rule encryptPassword_error_before_pbkdf)
qed

theorem invalid_input_matrix_witness:
  "encryptPassword pbkdf_sample [] (JString (ascii ''hunter2''))
       (Some [(''numberOfRounds'', JNumber (Num 0)), (''salt'', JString (ascii ''saltsalt''))])
     = Inl InvalidRoundCount
   \<and> encryptPassword pbkdf_sample [] (JString (ascii ''hunter2''))
       (Some [(''outputLength'', JNumber (Num 0)), (''salt'', JString (ascii ''saltsalt''))])
     = Inl InvalidOutputLength
   \<and> encryptPassword pbkdf_sample [] (JString (ascii ''hunter2''))
       (Some [(''salt'', JString (ascii ''short''))])
     = Inl SaltTooShort
   \<and> encryptPassword pbkdf_sample [] (JNumber (Num 42))
       (Some [(''salt'', JString (ascii ''saltsalt''))])
     = Inl InvalidPassword
   \<and> encryptPassword (\<lambda>pass passlen salt saltlen key keylen rounds. (-1, [])) []
       (JString (ascii ''hunter2'')) (Some [(''salt'', JString (ascii ''short''))])
     = Inl SaltTooShort"
proof -
  have rounds: "get_prop [(''numberOfRounds'', JNumber (Num 0)),
                          (''salt'', JString (ascii ''saltsalt''))] ''numberOfRounds''
                  = JNumber (Num 0)"
    by (simp add: get_prop_def)
  have len: "omitted_or_positive (get_prop [(''outputLength'', JNumber (Num 0)),
                          (''salt'', JString (ascii ''saltsalt''))] ''numberOfRounds'')
        \<and> get_prop [(''outputLength'', JNumber (Num 0)),
                          (''salt'', JString (ascii ''saltsalt''))] ''outputLength''
            = JNumber (Num 0)"
    by (simp add: get_prop_def omitted_or_positive_def)
  have salt: "omitted_or_positive (get_prop [(''salt'', JString (ascii ''short''))] ''numberOfRounds'')
        \<and> omitted_or_positive (get_prop [(''salt'', JString (ascii ''short''))] ''outputLength'')
        \<and> get_prop [(''salt'', JString (ascii ''short''))] ''salt'' = JString (ascii ''short'')"
    by (simp add: get_prop_def omitted_or_positive_def)
  have pw: "\<forall>q. JNumber (Num 42) \<noteq> JString q"
    by simp
  from invalid_input_matrix
    [of "[(''numberOfRounds'', JNumber (Num 0)), (''salt'', JString (ascii ''saltsalt''))]"
        pbkdf_sample "[]" "ascii ''hunter2''"]
    rounds
  have 1: "encryptPassword pbkdf_sample [] (JString (ascii ''hunter2''))
       (Some [(''numberOfRounds'', JNumber (Num 0)), (''salt'', JString (ascii ''saltsalt''))])
     = Inl InvalidRoundCount"
    by blast
  from invalid_input_matrix
    [of "[(''outputLength'', JNumber (Num 0)), (''salt'', JString (ascii ''saltsalt''))]"
        pbkdf_sample "[]" "ascii ''hunter2''"]
    len
  have 2: "encryptPassword pbkdf_sample [] (JString (ascii ''hunter2''))
       (Some [(''outputLength'', JNumber (Num 0)), (''salt'', JString (ascii ''saltsalt''))])
     = Inl InvalidOutputLength"
    by blast
  note T = invalid_input_matrix
    [of "[(''salt'', JString (ascii ''short''))]" pbkdf_sample "[]" "ascii ''hunter2''"
        "JString (ascii ''hunter2'')" "Some [(''salt'', JString (ascii ''short''))]" _
        SaltTooShort "\<lambda>pass passlen salt saltlen key keylen rounds. (-1, [])"]
  from T salt
  have 3: "encryptPassword pbkdf_sample [] (JString (ascii ''hunter2''))
       (Some [(''salt'', JString (ascii ''short''))])
     = Inl SaltTooShort"
    by blast
  from invalid_input_matrix
    [of _ pbkdf_sample "[]" _ "JNumber (Num 42)" "Some [(''salt'', JString (ascii ''saltsalt''))]"]
    pw
  have 4: "encryptPassword pbkdf_sample [] (JNumber (Num 42))
       (Some [(''salt'', JString (ascii ''saltsalt''))])
     = Inl InvalidPassword"
    by blast
  from T 3
  have 5: "encryptPassword (\<lambda>pass passlen salt saltlen key keylen rounds. (-1, [])) []
       (JString (ascii ''hunter2'')) (Some [(''salt'', JString (ascii ''short''))])
     = Inl SaltTooShort"
    by blast
  from 1 2 3 4 5 show ?thesis by blast
qed

text \<open>
  C6 as stated fails where the rounds option is missing: the default 1 is used and the
  call below returns a buffer.
\<close>

theorem rounds_missing_counterexample:
  "map_of [(''outputLength'', JNumber (Num 4)), (''salt'', JString (ascii ''saltsalt''))]
       ''numberOfRounds'' = None
   \<and> encryptPassword pbkdf_sample [] (JString (ascii ''hunter2''))
       (Some [(''outputLength'', JNumber (Num 4)), (''salt'', JString (ascii ''saltsalt''))])
     = Inr [1, 0, 0, 0]"
  using sample_call by simp

text \<open>
  C6, amended. For a call with a string password whose rounds option is supplied and is
  not an integer, or is an integer below 1, the rounds error is raised. A call whose rounds
  option is missing never raises the rounds error: it is the call with rounds 1.
\<close>

theorem rounds_validation:
  "(get_prop opts ''numberOfRounds'' \<noteq> JUndefined
      \<and> ((\<forall>n. get_prop opts ''numberOfRounds'' \<noteq> JNumber (Num (of_int n)))
           \<or> (\<exists>n. n < 1 \<and> get_prop opts ''numberOfRounds'' = JNumber (Num (of_int n))))
     \<longrightarrow> encryptPassword P env (JString p) (Some opts) = Inl InvalidRoundCount)
   \<and> (get_prop opts ''numberOfRounds'' = JUndefined
     \<longrightarrow> encryptPassword P env pw (Some opts) \<noteq> Inl InvalidRoundCount
         \<and> encryptPassword P env pw (Some opts)
             = encryptPassword P env pw (Some ((''numberOfRounds'', JNumber (Num 1)) # opts)))
   \<and> encryptPassword P env pw None \<noteq> Inl InvalidRoundCount"
proof (intro conjI impI)
  assume a: "get_prop opts ''numberOfRounds'' \<noteq> JUndefined
      \<and> ((\<forall>n. get_prop opts ''numberOfRounds'' \<noteq> JNumber (Num (of_int n)))
           \<or> (\<exists>n. n < 1 \<and> get_prop opts ''numberOfRounds'' = JNumber (Num (of_int n))))"
  have "\<forall>n. 1 \<le> n \<longrightarrow> get_prop opts ''numberOfRounds'' \<noteq> JNumber (Num (of_int n))"
    using a by auto
  with a show "encryptPassword P env (JString p) (Some opts) = Inl InvalidRoundCount"
    using encryptPassword_bad_rounds by blast
next
  assume "get_prop opts ''numberOfRounds'' = JUndefined"
  then show "encryptPassword P env pw (Some opts) \<noteq> Inl InvalidRoundCount"
    by (rule encryptPassword_default_rounds(1))
next
  assume "get_prop opts ''numberOfRounds'' = JUndefined"
  then show "encryptPassword P env pw (Some opts)
               = encryptPassword P env pw (Some ((''numberOfRounds'', JNumber (Num 1)) # opts))"
    by (rule encryptPassword_default_rounds(2))
next
  have "get_prop [] ''numberOfRounds'' = JUndefined"
    by (simp add: get_prop_def)
  then have "encryptPassword P env pw (Some []) \<noteq> Inl InvalidRoundCount"
    by (rule encryptPassword_default_rounds(1))
  then show "encryptPassword P env pw None \<noteq> Inl InvalidRoundCount"
    by (simp add: encryptPassword_None)
qed

theorem rounds_validation_witness:
  "encryptPassword pbkdf_sample [] (JString (ascii ''hunter2''))
       (Some [(''numberOfRounds'', JNumber (Num (3 / 2))), (''salt'', JString (ascii ''saltsalt''))])
     = Inl InvalidRoundCount
   \<and> encryptPassword pbkdf_sample [] (JString (ascii ''hunter2''))
       (Some [(''numberOfRounds'', JNumber (Num (- 3))), (''salt'', JString (ascii ''saltsalt''))])
     = Inl InvalidRoundCount
   \<and> encryptPassword pbkdf_sample [] (JString (ascii ''hunter2''))
       (Some [(''numberOfRounds'', JNull), (''salt'', JString (ascii ''saltsalt''))])
     = Inl InvalidRoundCount
   \<and> encryptPassword pbkdf_sample [] (JString (ascii ''hunter2''))
       (Some [(''salt'', JString (ascii ''saltsalt''))])
     \<noteq> Inl InvalidRoundCount
   \<and> encryptPassword pbkdf_sample [] (JString (ascii ''hunter2''))
       (Some [(''salt'', JString (ascii ''saltsalt''))])
     = encryptPassword pbkdf_sample [] (JString (ascii ''hunter2''))
       (Some [(''numberOfRounds'', JNumber (Num 1)), (''salt'', JString (ascii ''saltsalt''))])"
proof -
  have frac: "get_prop [(''numberOfRounds'', JNumber (Num (3 / 2))),
                        (''salt'', JString (ascii ''saltsalt''))] ''numberOfRounds'' \<noteq> JUndefined
      \<and> ((\<forall>n. get_prop [(''numberOfRounds'', JNumber (Num (3 / 2))),
                        (''salt'', JString (ascii ''saltsalt''))] ''numberOfRounds''
                \<noteq> JNumber (Num (of_int n)))
           \<or> (\<exists>n. n < 1 \<and> get_prop [(''numberOfRounds'', JNumber (Num (3 / 2))),
                        (''salt'', JString (ascii ''saltsalt''))] ''numberOfRounds''
                = JNumber (Num (of_int n))))"
    using three_halves_not_integer by (simp add: get_prop_def)
  have "rat_of_int (- 3) = - 3"
    by simp
  then have "(- 3 :: int) < 1 \<and> JNumber (Num (- 3)) = JNumber (Num (of_int (- 3)))"
    by simp
  then have "\<exists>n. n < 1 \<and> JNumber (Num (- 3)) = JNumber (Num (of_int n))"
    by (rule exI)
  then have neg: "get_prop [(''numberOfRounds'', JNumber (Num (- 3))),
                        (''salt'', JString (ascii ''saltsalt''))] ''numberOfRounds'' \<noteq> JUndefined
      \<and> ((\<forall>n. get_prop [(''numberOfRounds'', JNumber (Num (- 3))),
                        (''salt'', JString (ascii ''saltsalt''))] ''numberOfRounds''
                \<noteq> JNumber (Num (of_int n)))
           \<or> (\<exists>n. n < 1 \<and> get_prop [(''numberOfRounds'', JNumber (Num (- 3))),
                        (''salt'', JString (ascii ''saltsalt''))] ''numberOfRounds''
                = JNumber (Num (of_int n))))"
    by (simp add: get_prop_def)
  have null: "get_prop [(''numberOfRounds'', JNull),
                        (''salt'', JString (ascii ''saltsalt''))] ''numberOfRounds'' \<noteq> JUndefined
      \<and> ((\<forall>n. get_prop [(''numberOfRounds'', JNull),
                        (''salt'', JString (ascii ''saltsalt''))] ''numberOfRounds''
                \<noteq> JNumber (Num (of_int n)))
           \<or> (\<exists>n. n < 1 \<and> get_prop [(''numberOfRounds'', JNull),
                        (''salt'', JString (ascii ''saltsalt''))] ''numberOfRounds''
                = JNumber (Num (of_int n))))"
    by (simp add: get_prop_def)
  have missing: "get_prop [(''salt'', JString (ascii ''saltsalt''))] ''numberOfRounds'' = JUndefined"
    by (simp add: get_prop_def)
  from rounds_validation
    [of "[(''numberOfRounds'', JNumber (Num (3 / 2))), (''salt'', JString (ascii ''saltsalt''))]"
        pbkdf_sample "[]" "ascii ''hunter2''"]
    frac
  have 1: "encryptPassword pbkdf_sample [] (JString (ascii ''hunter2''))
       (Some [(''numberOfRounds'', JNumber (Num (3 / 2))), (''salt'', JString (ascii ''saltsalt''))])
     = Inl InvalidRoundCount"
    by blast
  from rounds_validation
    [of "[(''numberOfRounds'', JNumber (Num (- 3))), (''salt'', JString (ascii ''saltsalt''))]"
        pbkdf_sample "[]" "ascii ''hunter2''"]
    neg
  have 2: "encryptPassword pbkdf_sample [] (JString (ascii ''hunter2''))
       (Some [(''numberOfRounds'', JNumber (Num (- 3))), (''salt'', JString (ascii ''saltsalt''))])
     = Inl InvalidRoundCount"
    by blast
  from rounds_validation
    [of "[(''numberOfRounds'', JNull), (''salt'', JString (ascii ''saltsalt''))]"
        pbkdf_sample "[]" "ascii ''hunter2''"]
    null
  have 3: "encryptPassword pbkdf_sample [] (JString (ascii ''hunter2''))
       (Some [(''numberOfRounds'', JNull), (''salt'', JString (ascii ''saltsalt''))])
     = Inl InvalidRoundCount"
    by blast
  from rounds_validation
    [of "[(''salt'', JString (ascii ''saltsalt''))]" pbkdf_sample "[]" _
        "JString (ascii ''hunter2'')"]
    missing
  have 4: "encryptPassword pbkdf_sample [] (JString (ascii ''hunter2''))
       (Some [(''salt'', JString (ascii ''saltsalt''))])
     \<noteq> Inl InvalidRoundCount
   \<and> encryptPassword pbkdf_sample [] (JString (ascii ''hunter2''))
       (Some [(''salt'', JString (ascii ''saltsalt''))])
     = encryptPassword pbkdf_sample [] (JString (ascii ''hunter2''))
       (Some [(''numberOfRounds'', JNumber (Num 1)), (''salt'', JString (ascii ''saltsalt''))])"
    by blast
  from 1 2 3 4 show ?thesis by blast
qed

text \<open>
  C3 as stated fails for a salt of exactly 8 bytes that has fewer than 8 code units: the
  salt made of the code unit U+00E9 (e with an acute accent) four times is 8 bytes of
  UTF-8, and the call raises the salt error.
\<close>

theorem salt_floor_bytes_counterexample:
  "length (Buffer_from [0xE9, 0xE9, 0xE9, 0xE9]) = 8
   \<and> encryptPassword pbkdf_sample [] (JString (ascii ''hunter2''))
       (Some [(''salt'', JString [0xE9, 0xE9, 0xE9, 0xE9])])
     = Inl SaltTooShort"
  by (simp add: encryptPassword_def get_prop_def or_default_def minSaltLengh_def)

text \<open>
  C3, amended. The floor is counted in UTF-16 code units, as \<^verbatim>\<open>salt.length\<close> does. With
  the other inputs valid: a supplied string salt of fewer than 8 bytes, or of fewer than 8
  code units, raises the salt error; one of at least 8 code units succeeds; and one of
  exactly 8 bytes succeeds exactly when it has 8 code units.
\<close>

theorem salt_floor_code_units:
  "omitted_or_positive (get_prop opts ''numberOfRounds'')
   \<and> omitted_or_positive (get_prop opts ''outputLength'')
   \<and> get_prop opts ''salt'' = JString s
   \<longrightarrow> (length (Buffer_from s) < 8
          \<longrightarrow> encryptPassword P env (JString p) (Some opts) = Inl SaltTooShort
              \<and> InvalidSalt SaltTooShort)
       \<and> (length s < 8
          \<longrightarrow> encryptPassword P env (JString p) (Some opts) = Inl SaltTooShort)
       \<and> (8 \<le> length s
          \<longrightarrow> (\<exists>buf. encryptPassword P env (JString p) (Some opts) = Inr buf))
       \<and> (length (Buffer_from s) = 8
          \<longrightarrow> ((\<exists>buf. encryptPassword P env (JString p) (Some opts) = Inr buf)
                \<longleftrightarrow> length s = 8))"
proof (intro impI)
  assume a: "omitted_or_positive (get_prop opts ''numberOfRounds'')
   \<and> omitted_or_positive (get_prop opts ''outputLength'')
   \<and> get_prop opts ''salt'' = JString s"
  then have r: "or_default (get_prop opts ''salt'') (get_prop env ''SALT'') = JString s"
    by (simp add: or_default_def)
  have le: "length s \<le> length (Buffer_from s)"
    by (rule length_le_Buffer_from)
  have short: "encryptPassword P env (JString p) (Some opts) = Inl SaltTooShort"
    if "length s < 8"
    using a r that encryptPassword_salt_short [of opts env s P p]
    by (simp add: minSaltLengh_def)
  have long: "\<exists>buf. encryptPassword P env (JString p) (Some opts) = Inr buf"
    if "8 \<le> length s"
    using a r that encryptPassword_valid [of opts env s P p]
    by (simp add: minSaltLengh_def)
  show "(length (Buffer_from s) < 8
          \<longrightarrow> encryptPassword P env (JString p) (Some opts) = Inl SaltTooShort
              \<and> InvalidSalt SaltTooShort)
       \<and> (length s < 8
          \<longrightarrow> encryptPassword P env (JString p) (Some opts) = Inl SaltTooShort)
       \<and> (8 \<le> length s
          \<longrightarrow> (\<exists>buf. encryptPassword P env (JString p) (Some opts) = Inr buf))
       \<and> (length (Buffer_from s) = 8
          \<longrightarrow> ((\<exists>buf. encryptPassword P env (JString p) (Some opts) = Inr buf)
                \<longleftrightarrow> length s = 8))"
  proof (intro conjI impI)
    assume "length (Buffer_from s) < 8"
    with le have "length s < 8" by simp
    then show "encryptPassword P env (JString p) (Some opts) = Inl SaltTooShort"
      by (rule short)
    show "InvalidSalt SaltTooShort"
      by (simp add: InvalidSalt_def)
  next
    assume "length s < 8"
    then show "encryptPassword P env (JString p) (Some opts) = Inl SaltTooShort"
      by (rule short)
  next
    assume "8 \<le> length s"
    then show "\<exists>buf. encryptPassword P env (JString p) (Some opts) = Inr buf"
      by (rule long)
  next
    assume b: "length (Buffer_from s) = 8"
    show "(\<exists>buf. encryptPassword P env (JString p) (Some opts) = Inr buf) \<longleftrightarrow> length s = 8"
    proof
      assume "\<exists>buf. encryptPassword P env (JString p) (Some opts) = Inr buf"
      then have "\<not> length s < 8"
        using short by auto
      with le b show "length s = 8" by simp
    next
      assume "length s = 8"
      then show "\<exists>buf. encryptPassword P env (JString p) (Some opts) = Inr buf"
        using long by simp
    qed
  qed
qed

theorem salt_floor_code_units_witness:
  "encryptPassword pbkdf_sample [] (JString (ascii ''hunter2''))
       (Some [(''salt'', JString (ascii ''1234567''))])
     = Inl SaltTooShort
   \<and> (\<exists>buf. encryptPassword pbkdf_sample [] (JString (ascii ''hunter2''))
       (Some [(''salt'', JString (ascii ''12345678''))]) = Inr buf)
   \<and> ((\<exists>buf. encryptPassword pbkdf_sample [] (JString (ascii ''hunter2''))
         (Some [(''salt'', JString [0xE9, 0xE9, 0xE9, 0xE9])]) = Inr buf)
       \<longleftrightarrow> length [0xE9, 0xE9, 0xE9, 0xE9 :: 16 word] = 8)"
proof -
  have seven: "omitted_or_positive (get_prop [(''salt'', JString (ascii ''1234567''))] ''numberOfRounds'')
   \<and> omitted_or_positive (get_prop [(''salt'', JString (ascii ''1234567''))] ''outputLength'')
   \<and> get_prop [(''salt'', JString (ascii ''1234567''))] ''salt'' = JString (ascii ''1234567'')"
    and seven_bytes: "length (Buffer_from (ascii ''1234567'')) < 8"
    by (simp_all add: get_prop_def omitted_or_positive_def ascii_def)
  have eight: "omitted_or_positive (get_prop [(''salt'', JString (ascii ''12345678''))] ''numberOfRounds'')
   \<and> omitted_or_positive (get_prop [(''salt'', JString (ascii ''12345678''))] ''outputLength'')
   \<and> get_prop [(''salt'', JString (ascii ''12345678''))] ''salt'' = JString (ascii ''12345678'')"
    and eight_units: "8 \<le> length (ascii ''12345678'')"
    by (simp_all add: get_prop_def omitted_or_positive_def ascii_def)
  have four: "omitted_or_positive (get_prop [(''salt'', JString [0xE9, 0xE9, 0xE9, 0xE9])] ''numberOfRounds'')
   \<and> omitted_or_positive (get_prop [(''salt'', JString [0xE9, 0xE9, 0xE9, 0xE9])] ''outputLength'')
   \<and> get_prop [(''salt'', JString [0xE9, 0xE9, 0xE9, 0xE9])] ''salt''
       = JString [0xE9, 0xE9, 0xE9, 0xE9]"
    and four_bytes: "length (Buffer_from [0xE9, 0xE9, 0xE9, 0xE9]) = 8"
    by (simp_all add: get_prop_def omitted_or_positive_def)
  from salt_floor_code_units
    [of "[(''salt'', JString (ascii ''1234567''))]" "ascii ''1234567''" pbkdf_sample "[]"
        "ascii ''hunter2''"]
    seven seven_bytes
  have 1: "encryptPassword pbkdf_sample [] (JString (ascii ''hunter2''))
       (Some [(''salt'', JString (ascii ''1234567''))])
     = Inl SaltTooShort"
    by blast
  from salt_floor_code_units
    [of "[(''salt'', JString (ascii ''12345678''))]" "ascii ''12345678''" pbkdf_sample "[]"
        "ascii ''hunter2''"]
    eight eight_units
  have 2: "\<exists>buf. encryptPassword pbkdf_sample [] (JString (ascii ''hunter2''))
       (Some [(''salt'', JString (ascii ''12345678''))]) = Inr buf"
    by blast
  from salt_floor_code_units
    [of "[(''salt'', JString [0xE9, 0xE9, 0xE9, 0xE9])]" "[0xE9, 0xE9, 0xE9, 0xE9]" pbkdf_sample
        "[]" "ascii ''hunter2''"]
    four four_bytes
  have 3: "(\<exists>buf. encryptPassword pbkdf_sample [] (JString (ascii ''hunter2''))
         (Some [(''salt'', JString [0xE9, 0xE9, 0xE9, 0xE9])]) = Inr buf)
       \<longleftrightarrow> length [0xE9, 0xE9, 0xE9, 0xE9 :: 16 word] = 8"
    by blast
  from 1 2 3 show ?thesis by blast
qed

end
